theory Spec2Isabelle
  imports Main
begin

section \<open>Python string operations used by the entity\<close>

text \<open>
  A Python \<open>str\<close> is modelled as a \<open>string\<close> whose characters are the code points
  below 256. \<open>str_isspace\<close> lists the code points of that range for which Python's
  \<open>str.isspace\<close> holds; they are what \<open>str.strip()\<close> removes.
\<close>

definition str_isspace :: "char \<Rightarrow> bool" where
  "str_isspace c \<longleftrightarrow>
     c \<in> set [CHR 0x09, CHR 0x0A, CHR 0x0B, CHR 0x0C, CHR 0x0D, CHR 0x1C, CHR 0x1D, CHR 0x1E,
              CHR 0x1F, CHR 0x20, CHR 0x85, CHR 0xA0]"

text \<open>\<open>s.strip()\<close>: leading and trailing whitespace removed.\<close>

definition str_strip :: "string \<Rightarrow> string" where
  "str_strip s = rev (dropWhile str_isspace (rev (dropWhile str_isspace s)))"

text \<open>
  \<open>s.split(sep)\<close> for a one-character separator: the pieces between the separators,
  empty pieces included, so the result is never the empty list (\<open>''.split(',') == ['']\<close>).
\<close>

fun str_split :: "char \<Rightarrow> string \<Rightarrow> string list" where
  "str_split sep [] = [[]]"
| "str_split sep (c # cs) =
     (if c = sep then [] # str_split sep cs
      else (case str_split sep cs of
              [] \<Rightarrow> [[c]]
            | w # ws \<Rightarrow> (c # w) # ws))"

text \<open>\<open>sep.join(xs)\<close>.\<close>

fun str_join :: "string \<Rightarrow> string list \<Rightarrow> string" where
  "str_join sep [] = []"
| "str_join sep [x] = x"
| "str_join sep (x # y # ys) = x @ sep @ str_join sep (y # ys)"

text \<open>A string that \<open>strip()\<close> leaves alone: no whitespace at either end.\<close>

definition trimmed :: "string \<Rightarrow> bool" where
  "trimmed t = (case t of [] \<Rightarrow> True | c # cs \<Rightarrow> \<not> str_isspace c \<and> \<not> str_isspace (last (c # cs)))"


section \<open>The entity (models.py)\<close>

text \<open>The dataclass \<open>Prompt\<close>; \<open>p_id\<close> is \<open>None\<close> for a prompt not yet stored.\<close>

record prompt =
  p_id :: "int option"
  p_text :: string
  p_tags :: "string list"
  p_tool :: string
  p_is_favorite :: bool

text \<open>
  The dictionary form of a prompt, with the keys \<open>id\<close>, \<open>text\<close>, \<open>tags\<close>, \<open>tool\<close> and
  \<open>is_favorite\<close>: what \<open>to_dict\<close> builds and what a dictionary cursor yields for a row.
\<close>

record dict =
  d_id :: "int option"
  d_text :: string
  d_tags :: string
  d_tool :: string
  d_is_favorite :: bool

definition to_dict :: "prompt \<Rightarrow> dict" where
  "to_dict self =
     \<lparr>d_id = p_id self,
      d_text = p_text self,
      d_tags = str_join '','' (p_tags self),
      d_tool = p_tool self,
      d_is_favorite = p_is_favorite self\<rparr>"

text \<open>
  \<open>from_dict\<close>: the tags string is split at the commas only when it is non-empty (the
  truth test of \<open>data.get('tags')\<close>); each piece is stripped and the pieces that are
  empty after stripping are left out.
\<close>

definition from_dict :: "dict \<Rightarrow> prompt" where
  "from_dict data =
     (let tags_list =
            (if d_tags data \<noteq> []
             then map str_strip
                    (filter (\<lambda>tag. str_strip tag \<noteq> []) (str_split (CHR '','') (d_tags data)))
             else [])
      in \<lparr>p_id = d_id data,
          p_text = d_text data,
          p_tags = tags_list,
          p_tool = d_tool data,
          p_is_favorite = d_is_favorite data\<rparr>)"


section \<open>The storage layer (database.py)\<close>

text \<open>
  One row of the table \<open>prompts\<close> that \<open>create_table\<close> declares: \<open>id\<close> (integer primary
  key, assigned by the server), \<open>text\<close>, \<open>tags\<close>, \<open>tool\<close> and \<open>is_favorite\<close>.
\<close>

record row =
  r_id :: int
  r_text :: string
  r_tags :: string
  r_tool :: string
  r_is_favorite :: bool

text \<open>
  The connection object of the MySQL driver. \<open>is_connected\<close> tells whether the server can
  still be reached through it; \<open>found_rows\<close> is the client flag that decides what
  \<open>cursor.rowcount\<close> counts after an \<open>UPDATE\<close>: the rows matched when it is set, the rows
  actually changed otherwise. The results below hold for both settings.
\<close>

datatype conn = Conn (is_connected: bool) (found_rows: bool)

text \<open>The exception of the driver that \<open>connection.cursor()\<close> raises on a lost connection.\<close>

datatype exn = OperationalError

text \<open>
  The storage layer together with the server it talks to: the handle \<open>self.connection\<close>
  (\<open>None\<close> when \<open>connect\<close> failed), the rows of the table in storage order, the next value of
  the \<open>AUTO_INCREMENT\<close> counter, and for each statement still to come whether the server
  rejects it (\<open>execute\<close> or \<open>commit\<close> raising the driver's \<open>Error\<close>, whatever the cause: a
  violated constraint, a value too long for its column, a failure of the server); an
  exhausted list means that no further statement is rejected.
\<close>

record prompt_db =
  connection :: "conn option"
  prompts :: "row list"
  auto_increment :: int
  stmt_errors :: "bool list"

text \<open>
  \<open>self.connection.cursor()\<close>: the driver raises \<open>OperationalError\<close> when the connection
  is not available any more. Every method calls it before its \<open>try\<close> block, so what it
  raises is not caught by the method.
\<close>

definition cursor :: "conn \<Rightarrow> exn + unit" where
  "cursor c = (if is_connected c then Inr () else Inl OperationalError)"

text \<open>
  The body of a \<open>try\<close> block up to the commit: whether the driver raises \<open>Error\<close>, and the
  storage with this statement taken off the list. A rejected statement is rolled back and
  leaves the table as it was.
\<close>

definition execute :: "prompt_db \<Rightarrow> bool \<times> prompt_db" where
  "execute db = (case stmt_errors db of
                   [] \<Rightarrow> (False, db)
                 | e # es \<Rightarrow> (e, db\<lparr>stmt_errors := es\<rparr>))"

text \<open>The dictionary that a cursor opened with \<open>dictionary=True\<close> yields for a row.\<close>

definition fetch :: "row \<Rightarrow> dict" where
  "fetch r = \<lparr>d_id = Some (r_id r), d_text = r_text r, d_tags = r_tags r,
              d_tool = r_tool r, d_is_favorite = r_is_favorite r\<rparr>"

text \<open>
  Modelled from the spec: the collation of the columns is not declared in the source (the
  table takes the server's default); the spec calls the comparison of \<open>LIKE\<close>
  case-insensitive, which is rendered as equality after folding \<open>A\<close> to \<open>Z\<close> to lower case.
\<close>

definition collate :: "char \<Rightarrow> char" where
  "collate c =
     (case map_of (zip ''ABCDEFGHIJKLMNOPQRSTUVWXYZ'' ''abcdefghijklmnopqrstuvwxyz'') c of
        None \<Rightarrow> c
      | Some l \<Rightarrow> l)"

text \<open>
  \<open>s LIKE pattern\<close>: in the pattern \<open>%\<close> stands for any run of characters, \<open>_\<close> for any
  one character, and a backslash makes the character after it stand for itself; every
  other character stands for itself up to the collation.
\<close>

fun sql_like :: "string \<Rightarrow> string \<Rightarrow> bool" where
  "sql_like s [] = (s = [])"
| "sql_like [] (p # ps) = (p = CHR ''%'' \<and> sql_like [] ps)"
| "sql_like (c # cs) (p # ps) =
     (if p = CHR ''%'' then sql_like (c # cs) ps \<or> sql_like cs (p # ps)
      else if p = CHR ''_'' then sql_like cs ps
      else if p = CHR 0x5C then
        (case ps of
           [] \<Rightarrow> collate c = collate p \<and> cs = []
         | q # qs \<Rightarrow> collate c = collate q \<and> sql_like cs qs)
      else collate c = collate p \<and> sql_like cs ps)"

definition create_table :: "prompt_db \<Rightarrow> (exn + unit) \<times> prompt_db" where
  "create_table db =
     (case connection db of
        None \<Rightarrow> (Inr (), db)
      | Some c \<Rightarrow>
          (case cursor c of
             Inl e \<Rightarrow> (Inl e, db)
           | Inr _ \<Rightarrow> (Inr (), snd (execute db))))"

definition insert_prompt :: "prompt_db \<Rightarrow> prompt \<Rightarrow> (exn + int option) \<times> prompt_db" where
  "insert_prompt db prompt =
     (case connection db of
        None \<Rightarrow> (Inr None, db)
      | Some c \<Rightarrow>
          (case cursor c of
             Inl e \<Rightarrow> (Inl e, db)
           | Inr _ \<Rightarrow>
               (let (err, db1) = execute db in
                if err then (Inr None, db1)
                else
                  (let lastrowid = auto_increment db1;
                       new = \<lparr>r_id = lastrowid,
                              r_text = p_text prompt,
                              r_tags = str_join '','' (p_tags prompt),
                              r_tool = p_tool prompt,
                              r_is_favorite = p_is_favorite prompt\<rparr>
                   in (Inr (Some lastrowid),
                       db1\<lparr>prompts := prompts db1 @ [new],
                           auto_increment := lastrowid + 1\<rparr>)))))"

definition get_prompt_by_id :: "prompt_db \<Rightarrow> int \<Rightarrow> (exn + prompt option) \<times> prompt_db" where
  "get_prompt_by_id db prompt_id =
     (case connection db of
        None \<Rightarrow> (Inr None, db)
      | Some c \<Rightarrow>
          (case cursor c of
             Inl e \<Rightarrow> (Inl e, db)
           | Inr _ \<Rightarrow>
               (let (err, db1) = execute db in
                if err then (Inr None, db1)
                else
                  (case find (\<lambda>r. r_id r = prompt_id) (prompts db1) of
                     Some rec \<Rightarrow> (Inr (Some (from_dict (fetch rec))), db1)
                   | None \<Rightarrow> (Inr None, db1)))))"

definition update_prompt :: "prompt_db \<Rightarrow> prompt \<Rightarrow> (exn + bool) \<times> prompt_db" where
  "update_prompt db prompt =
     (case connection db of
        None \<Rightarrow> (Inr False, db)
      | Some c \<Rightarrow>
          (case p_id prompt of
             None \<Rightarrow> (Inr False, db)
           | Some i \<Rightarrow>
               (case cursor c of
                  Inl e \<Rightarrow> (Inl e, db)
                | Inr _ \<Rightarrow>
                    (let (err, db1) = execute db in
                     if err then (Inr False, db1)
                     else
                       (let set_values = (\<lambda>r. r\<lparr>r_text := p_text prompt,
                                                   r_tags := str_join '','' (p_tags prompt),
                                                   r_tool := p_tool prompt,
                                                   r_is_favorite := p_is_favorite prompt\<rparr>);
                            matched = filter (\<lambda>r. r_id r = i) (prompts db1);
                            rowcount = (if found_rows c then length matched
                                        else length (filter (\<lambda>r. set_values r \<noteq> r) matched))
                        in (Inr (rowcount > 0),
                            db1\<lparr>prompts :=
                                  map (\<lambda>r. if r_id r = i then set_values r else r)
                                    (prompts db1)\<rparr>))))))"

definition delete_prompt :: "prompt_db \<Rightarrow> int \<Rightarrow> (exn + bool) \<times> prompt_db" where
  "delete_prompt db prompt_id =
     (case connection db of
        None \<Rightarrow> (Inr False, db)
      | Some c \<Rightarrow>
          (case cursor c of
             Inl e \<Rightarrow> (Inl e, db)
           | Inr _ \<Rightarrow>
               (let (err, db1) = execute db in
                if err then (Inr False, db1)
                else
                  (let rowcount = length (filter (\<lambda>r. r_id r = prompt_id) (prompts db1))
                   in (Inr (rowcount > 0),
                       db1\<lparr>prompts := filter (\<lambda>r. r_id r \<noteq> prompt_id) (prompts db1)\<rparr>)))))"

definition get_all_prompts :: "prompt_db \<Rightarrow> (exn + prompt list) \<times> prompt_db" where
  "get_all_prompts db =
     (case connection db of
        None \<Rightarrow> (Inr [], db)
      | Some c \<Rightarrow>
          (case cursor c of
             Inl e \<Rightarrow> (Inl e, db)
           | Inr _ \<Rightarrow>
               (let (err, db1) = execute db in
                if err then (Inr [], db1)
                else (Inr (map (\<lambda>rec. from_dict (fetch rec)) (prompts db1)), db1))))"

definition search_prompts :: "prompt_db \<Rightarrow> string \<Rightarrow> (exn + prompt list) \<times> prompt_db" where
  "search_prompts db keyword =
     (case connection db of
        None \<Rightarrow> (Inr [], db)
      | Some c \<Rightarrow>
          (let search_term = ''%'' @ keyword @ ''%'' in
           case cursor c of
             Inl e \<Rightarrow> (Inl e, db)
           | Inr _ \<Rightarrow>
               (let (err, db1) = execute db in
                if err then (Inr [], db1)
                else
                  (let records =
                         filter (\<lambda>r. sql_like (r_text r) search_term
                                    \<or> sql_like (r_tags r) search_term
                                    \<or> sql_like (r_tool r) search_term)
                           (prompts db1)
                   in (Inr (map (\<lambda>rec. from_dict (fetch rec)) records), db1)))))"


section \<open>The service layer (services.py)\<close>

definition add_prompt ::
  "prompt_db \<Rightarrow> string \<Rightarrow> string list \<Rightarrow> string \<Rightarrow> (exn + int option) \<times> prompt_db" where
  "add_prompt db text tags tool =
     insert_prompt db
       \<lparr>p_id = None, p_text = text, p_tags = tags, p_tool = tool, p_is_favorite = False\<rparr>"

definition get_prompt :: "prompt_db \<Rightarrow> int \<Rightarrow> (exn + prompt option) \<times> prompt_db" where
  "get_prompt db prompt_id = get_prompt_by_id db prompt_id"

definition service_update_prompt ::
  "prompt_db \<Rightarrow> int \<Rightarrow> string \<Rightarrow> string list \<Rightarrow> string \<Rightarrow> bool \<Rightarrow> (exn + bool) \<times> prompt_db" where
  "service_update_prompt db prompt_id text tags tool is_favorite =
     (case get_prompt_by_id db prompt_id of
        (Inl e, db1) \<Rightarrow> (Inl e, db1)
      | (Inr None, db1) \<Rightarrow> (Inr False, db1)
      | (Inr (Some prompt), db1) \<Rightarrow>
          update_prompt db1
            (prompt\<lparr>p_text := text, p_tags := tags, p_tool := tool,
                    p_is_favorite := is_favorite\<rparr>))"

definition service_delete_prompt :: "prompt_db \<Rightarrow> int \<Rightarrow> (exn + bool) \<times> prompt_db" where
  "service_delete_prompt db prompt_id = delete_prompt db prompt_id"

definition list_all_prompts :: "prompt_db \<Rightarrow> (exn + prompt list) \<times> prompt_db" where
  "list_all_prompts db = get_all_prompts db"

definition search_and_filter_prompts ::
  "prompt_db \<Rightarrow> string option \<Rightarrow> bool option \<Rightarrow> (exn + prompt list) \<times> prompt_db" where
  "search_and_filter_prompts db keyword is_favorite =
     (case (case keyword of
              None \<Rightarrow> get_all_prompts db
            | Some k \<Rightarrow> if k \<noteq> [] then search_prompts db k else get_all_prompts db) of
        (Inl e, db1) \<Rightarrow> (Inl e, db1)
      | (Inr found, db1) \<Rightarrow>
          (case is_favorite of
             None \<Rightarrow> (Inr found, db1)
           | Some b \<Rightarrow> (Inr (filter (\<lambda>p. p_is_favorite p = b) found), db1)))"

definition toggle_favorite_status :: "prompt_db \<Rightarrow> int \<Rightarrow> (exn + bool option) \<times> prompt_db" where
  "toggle_favorite_status db prompt_id =
     (case get_prompt_by_id db prompt_id of
        (Inl e, db1) \<Rightarrow> (Inl e, db1)
      | (Inr None, db1) \<Rightarrow> (Inr None, db1)
      | (Inr (Some prompt), db1) \<Rightarrow>
          (let toggled = prompt\<lparr>p_is_favorite := \<not> p_is_favorite prompt\<rparr> in
           case update_prompt db1 toggled of
             (Inl e, db2) \<Rightarrow> (Inl e, db2)
           | (Inr True, db2) \<Rightarrow> (Inr (Some (p_is_favorite toggled)), db2)
           | (Inr False, db2) \<Rightarrow> (Inr None, db2)))"


section \<open>Conditions on the storage\<close>

text \<open>
  The storage works: the handle is set, the connection is up and no statement to come is
  rejected.
\<close>

definition healthy :: "prompt_db \<Rightarrow> bool" where
  "healthy db \<longleftrightarrow>
     (case connection db of None \<Rightarrow> False | Some c \<Rightarrow> is_connected c) \<and>
     True \<notin> set (stmt_errors db)"

text \<open>Opening a cursor does not raise: the handle is unset, or its connection is up.\<close>

definition cursor_available :: "prompt_db \<Rightarrow> bool" where
  "cursor_available db = (case connection db of None \<Rightarrow> True | Some c \<Rightarrow> is_connected c)"

text \<open>
  What \<open>AUTO_INCREMENT\<close> guarantees of the table: every id in use lies below the counter,
  so the id given to a new row is one that no row has.
\<close>

definition ids_below_counter :: "prompt_db \<Rightarrow> bool" where
  "ids_below_counter db \<longleftrightarrow> (\<forall>r\<in>set (prompts db). r_id r < auto_increment db)"


section \<open>Notions of the specification\<close>

text \<open>
  The second stage of \<open>searchAndFilterPrompts\<close> in the words of the specification: when a
  favorite flag is given, only the entities whose \<open>is_favorite\<close> equals it are retained;
  with no flag nothing is filtered. An exception of the first stage is passed on.
\<close>

definition favorite_only ::
  "bool option \<Rightarrow> (exn + prompt list) \<times> prompt_db \<Rightarrow> (exn + prompt list) \<times> prompt_db" where
  "favorite_only is_favorite source =
     (case source of
        (Inl e, db1) \<Rightarrow> (Inl e, db1)
      | (Inr found, db1) \<Rightarrow>
          (Inr (filter (\<lambda>p. case is_favorite of
                               None \<Rightarrow> True
                             | Some b \<Rightarrow> p_is_favorite p = b) found), db1))"

text \<open>
  The keyword is a case-insensitive substring of \<open>s\<close>: some run of consecutive characters
  of \<open>s\<close> equals the keyword up to the case of the letters.
\<close>

fun ci_prefix :: "string \<Rightarrow> string \<Rightarrow> bool" where
  "ci_prefix [] s = True"
| "ci_prefix (k # ks) [] = False"
| "ci_prefix (k # ks) (c # cs) = (collate c = collate k \<and> ci_prefix ks cs)"

fun ci_substring :: "string \<Rightarrow> string \<Rightarrow> bool" where
  "ci_substring keyword [] = ci_prefix keyword []"
| "ci_substring keyword (c # cs) = (ci_prefix keyword (c # cs) \<or> ci_substring keyword cs)"

text \<open>
  A keyword with none of the characters that \<open>LIKE\<close> reads as a wildcard or as an
  escape: \<open>%\<close>, \<open>_\<close> and the backslash.
\<close>

definition plain_keyword :: "string \<Rightarrow> bool" where
  "plain_keyword keyword \<longleftrightarrow>
     CHR ''%'' \<notin> set keyword \<and> CHR ''_'' \<notin> set keyword \<and> CHR 0x5C \<notin> set keyword"

text \<open>
  The rows that \<open>searchByKeyword\<close> is specified to return: the keyword is a
  case-insensitive substring of the text, of the stored tags string, or of the tool.
\<close>

definition keyword_matches :: "string \<Rightarrow> row \<Rightarrow> bool" where
  "keyword_matches keyword r \<longleftrightarrow>
     ci_substring keyword (r_text r) \<or> ci_substring keyword (r_tags r)
       \<or> ci_substring keyword (r_tool r)"


section \<open>Example values\<close>

text \<open>
  A working storage with four rows, two of which mention the keyword \<open>gpt\<close> and one of
  those two a favorite; and the same storage with its connection lost, and with the
  second statement to come rejected.
\<close>

definition example_rows :: "row list" where
  "example_rows =
     [\<lparr>r_id = 1, r_text = ''Summarise the GPT answer'', r_tags = ''summary, llm'',
       r_tool = ''ChatGPT'', r_is_favorite = True\<rparr>,
      \<lparr>r_id = 2, r_text = ''Draw a castle'', r_tags = ''art,,image '',
       r_tool = ''DALL-E'', r_is_favorite = True\<rparr>,
      \<lparr>r_id = 3, r_text = ''Refactor this module'', r_tags = ''code'',
       r_tool = ''gpt-4'', r_is_favorite = False\<rparr>,
      \<lparr>r_id = 5, r_text = ''Translate to French'', r_tags = [],
       r_tool = ''Gemini API'', r_is_favorite = False\<rparr>]"

definition example_db :: prompt_db where
  "example_db =
     \<lparr>connection = Some (Conn True False), prompts = example_rows, auto_increment = 6,
      stmt_errors = []\<rparr>"

definition lost_db :: prompt_db where
  "lost_db = example_db\<lparr>connection := Some (Conn False False)\<rparr>"

definition flaky_db :: prompt_db where
  "flaky_db = example_db\<lparr>stmt_errors := [False, True]\<rparr>"

definition example_prompt :: prompt where
  "example_prompt =
     \<lparr>p_id = None, p_text = ''Explain this diff'', p_tags = [''code review'', ''gpt''],
      p_tool = ''ChatGPT'', p_is_favorite = False\<rparr>"


section \<open>Facts about the string operations\<close>

lemma str_split_not_Nil: "str_split sep s \<noteq> []"
  by (induction s) (auto split: list.splits)

lemma str_split_no_sep: "sep \<notin> set x \<Longrightarrow> str_split sep x = [x]"
  by (induction x) auto

lemma str_split_append_sep:
  "sep \<notin> set x \<Longrightarrow> str_split sep (x @ sep # rest) = x # str_split sep rest"
  by (induction x) auto

lemma str_split_join:
  "ts \<noteq> [] \<Longrightarrow> \<forall>t\<in>set ts. sep \<notin> set t \<Longrightarrow> str_split sep (str_join [sep] ts) = ts"
proof (induction "[sep]" ts rule: str_join.induct)
  case 1
  then show ?case by simp
next
  case (2 x)
  then show ?case by (simp add: str_split_no_sep)
next
  case (3 x y ys)
  then show ?case by (simp add: str_split_append_sep)
qed

lemma str_join_eq_Nil:
  "\<forall>t\<in>set ts. t \<noteq> [] \<Longrightarrow> str_join sep ts = [] \<longleftrightarrow> ts = []"
  by (induction sep ts rule: str_join.induct) auto

lemma dropWhile_both_ends:
  fixes P :: "'a \<Rightarrow> bool"
  assumes ne: "rev (dropWhile P (rev (dropWhile P s))) \<noteq> []"
  shows "\<not> P (hd (rev (dropWhile P (rev (dropWhile P s))))) \<and>
         \<not> P (last (rev (dropWhile P (rev (dropWhile P s)))))"
proof -
  define v where "v = dropWhile P s"
  define u where "u = dropWhile P (rev v)"
  from ne have u: "u \<noteq> []" by (simp add: u_def v_def)
  have v: "v \<noteq> []"
  proof
    assume "v = []"
    then have "u = []" by (simp add: u_def)
    with u show False by simp
  qed
  have "\<not> P (hd u)" using u unfolding u_def by (rule hd_dropWhile)
  then have la: "\<not> P (last (rev u))" using u by (simp add: last_rev)
  have "rev v = takeWhile P (rev v) @ u" by (simp add: u_def)
  then have "last (rev v) = last u" using u by (metis last_appendR)
  then have "last u = hd v" using v by (simp add: last_rev)
  moreover have "\<not> P (hd v)" using v unfolding v_def by (rule hd_dropWhile)
  ultimately have "\<not> P (hd (rev u))" using u by (simp add: hd_rev)
  with la show ?thesis by (simp add: u_def v_def)
qed

lemma dropWhile_both_ends_id:
  fixes P :: "'a \<Rightarrow> bool"
  assumes "t \<noteq> []" "\<not> P (hd t)" "\<not> P (last t)"
  shows "rev (dropWhile P (rev (dropWhile P t))) = t"
proof -
  from assms have d1: "dropWhile P t = t" by (cases t) auto
  from assms have "rev t \<noteq> []" "\<not> P (hd (rev t))" by (simp_all add: hd_rev)
  then have "dropWhile P (rev t) = rev t" by (cases "rev t") auto
  with d1 show ?thesis by simp
qed

lemma str_strip_trimmed: "t \<noteq> [] \<Longrightarrow> trimmed t \<Longrightarrow> str_strip t = t"
  unfolding str_strip_def
  by (rule dropWhile_both_ends_id) (auto simp: trimmed_def split: list.splits)

lemma trimmed_str_strip: "trimmed (str_strip s)"
proof (cases "str_strip s")
  case Nil
  then show ?thesis by (simp add: trimmed_def)
next
  case (Cons c cs)
  then have "str_strip s \<noteq> []" by simp
  then have "\<not> str_isspace (hd (str_strip s)) \<and> \<not> str_isspace (last (str_strip s))"
    unfolding str_strip_def by (rule dropWhile_both_ends)
  with Cons show ?thesis by (simp add: trimmed_def)
qed

lemma from_dict_tags_well_formed:
  "t \<in> set (p_tags (from_dict data)) \<Longrightarrow> t \<noteq> [] \<and> trimmed t"
  by (auto simp: from_dict_def trimmed_str_strip split: if_splits)

lemma from_dict_to_dict_tags:
  assumes "\<forall>t\<in>set (p_tags p). t \<noteq> [] \<and> CHR '','' \<notin> set t \<and> trimmed t"
  shows "p_tags (from_dict (to_dict p)) = p_tags p"
proof (cases "p_tags p = []")
  case True
  then show ?thesis by (simp add: from_dict_def to_dict_def)
next
  case False
  from assms have ne: "str_join '','' (p_tags p) \<noteq> []"
    using False by (simp add: str_join_eq_Nil)
  from assms False have sp: "str_split (CHR '','') (str_join '','' (p_tags p)) = p_tags p"
    by (simp add: str_split_join)
  from assms have st: "\<forall>t\<in>set (p_tags p). str_strip t = t"
    by (simp add: str_strip_trimmed)
  then have "filter (\<lambda>tag. str_strip tag \<noteq> []) (p_tags p) = p_tags p"
    using assms by (simp add: filter_id_conv)
  moreover from st have "map str_strip (p_tags p) = p_tags p"
    by (simp add: map_idI)
  ultimately show ?thesis using ne sp by (simp add: from_dict_def to_dict_def)
qed

lemma count_list_map_filter:
  "t \<noteq> e \<Longrightarrow>
   count_list (map f (filter (\<lambda>x. f x \<noteq> e) xs)) t = length (filter (\<lambda>x. f x = t) xs)"
  by (induction xs) auto

lemma from_dict_tags_count:
  assumes "t \<noteq> []"
  shows "count_list (p_tags (from_dict data)) t =
         length (filter (\<lambda>piece. str_strip piece = t) (str_split (CHR '','') (d_tags data)))"
proof (cases "d_tags data = []")
  case True
  with assms show ?thesis by (auto simp: from_dict_def str_strip_def)
next
  case False
  with assms show ?thesis by (simp add: from_dict_def count_list_map_filter)
qed


section \<open>Properties of the tag representation\<close>

text \<open>
  C1, as amended. For every prompt whose tags are all non-empty, contain no comma and have
  no whitespace at either end, turning the prompt into its dictionary (the tags joined by
  commas, as \<open>to_dict\<close> does) and reading the dictionary back (as \<open>from_dict\<close> does) gives
  the original list of tags, in the original order.
\<close>

theorem tag_round_trip:
  assumes "\<forall>t\<in>set (p_tags p). t \<noteq> [] \<and> CHR '','' \<notin> set t \<and> trimmed t"
  shows "p_tags (from_dict (to_dict p)) = p_tags p"
  using assms by (rule from_dict_to_dict_tags)

theorem tag_round_trip_witness:
  "p_tags (from_dict (to_dict example_prompt)) = [''code review'', ''gpt'']"
  using tag_round_trip[of example_prompt]
  by (simp add: example_prompt_def trimmed_def str_isspace_def)

text \<open>
  C1 as stated fails: the tag \<open>'' gpt''\<close> is non-empty and has no comma, but reading strips
  its leading blank.
\<close>

theorem tag_round_trip_counterexample:
  "'' gpt'' \<noteq> [] \<and> CHR '','' \<notin> set '' gpt'' \<and>
   p_tags (from_dict (to_dict (example_prompt\<lparr>p_tags := ['' gpt'']\<rparr>))) \<noteq> ['' gpt'']"
  by (simp add: example_prompt_def from_dict_def to_dict_def str_strip_def str_isspace_def)

text \<open>
  C5, as amended. Empty entries are dropped on reading only. Reading any stored tags string
  gives a list with no empty element, and a tag occurs in that list as often as there are
  pieces of the string that strip to it, so equal tags are all kept. Writing changes
  nothing: the entries of the stored string are the tags of the prompt one for one, the
  empty and the repeated ones included (for a list that is non-empty and free of commas).
\<close>

theorem empty_tags_dropped_on_read_only:
  "(\<forall>t\<in>set (p_tags (from_dict data)). t \<noteq> []) \<and>
   (t \<noteq> [] \<longrightarrow>
      count_list (p_tags (from_dict data)) t =
        length (filter (\<lambda>piece. str_strip piece = t) (str_split (CHR '','') (d_tags data)))) \<and>
   (p_tags p \<noteq> [] \<and> (\<forall>t\<in>set (p_tags p). CHR '','' \<notin> set t) \<longrightarrow>
      str_split (CHR '','') (d_tags (to_dict p)) = p_tags p)"
proof (intro conjI impI)
  show "\<forall>t\<in>set (p_tags (from_dict data)). t \<noteq> []"
    using from_dict_tags_well_formed by blast
next
  assume "t \<noteq> []"
  then show "count_list (p_tags (from_dict data)) t =
        length (filter (\<lambda>piece. str_strip piece = t) (str_split (CHR '','') (d_tags data)))"
    by (rule from_dict_tags_count)
next
  assume "p_tags p \<noteq> [] \<and> (\<forall>t\<in>set (p_tags p). CHR '','' \<notin> set t)"
  then show "str_split (CHR '','') (d_tags (to_dict p)) = p_tags p"
    using str_split_join[of "p_tags p" "CHR '',''"] by (simp add: to_dict_def)
qed

theorem empty_tags_dropped_on_read_only_witness:
  "p_tags (from_dict (fetch \<lparr>r_id = 7, r_text = ''x'', r_tags = ''art, ,art,,image '',
                            r_tool = ''y'', r_is_favorite = False\<rparr>))
     = [''art'', ''art'', ''image''] \<and>
   count_list (p_tags (from_dict (fetch \<lparr>r_id = 7, r_text = ''x'',
                                          r_tags = ''art, ,art,,image '', r_tool = ''y'',
                                          r_is_favorite = False\<rparr>))) ''art'' = 2 \<and>
   str_split (CHR '','') (d_tags (to_dict (example_prompt\<lparr>p_tags := [''art'', [], ''art'']\<rparr>)))
     = [''art'', [], ''art'']"
proof -
  let ?d = "fetch \<lparr>r_id = 7, r_text = ''x'', r_tags = ''art, ,art,,image '', r_tool = ''y'',
                  r_is_favorite = False\<rparr>"
  let ?p = "example_prompt\<lparr>p_tags := [''art'', [], ''art'']\<rparr>"
  have tags: "p_tags (from_dict ?d) = [''art'', ''art'', ''image'']"
    by code_simp
  have "p_tags ?p \<noteq> [] \<and> (\<forall>t\<in>set (p_tags ?p). CHR '','' \<notin> set t)"
    by simp
  with empty_tags_dropped_on_read_only[of ?d "''art''" ?p] tags
  show ?thesis by simp
qed

text \<open>
  C5 as stated fails on writing: the empty tag between \<open>art\<close> and \<open>image\<close> becomes an empty
  entry of the stored string, which is not the string that the non-empty tags alone give.
\<close>

theorem empty_tags_counterexample:
  "d_tags (to_dict (example_prompt\<lparr>p_tags := [''art'', [], ''image'']\<rparr>)) = ''art,,image'' \<and>
   [] \<in> set (str_split (CHR '','')
               (d_tags (to_dict (example_prompt\<lparr>p_tags := [''art'', [], ''image'']\<rparr>)))) \<and>
   d_tags (to_dict (example_prompt\<lparr>p_tags := [''art'', [], ''image'']\<rparr>))
     \<noteq> str_join '','' (filter (\<lambda>t. t \<noteq> []) [''art'', [], ''image''])"
  by (simp add: to_dict_def)

text \<open>
  C9. Whatever \<open>get_prompt_by_id\<close>, \<open>get_all_prompts\<close> and \<open>search_prompts\<close> return, in every
  state of the storage, every tag of every prompt returned is non-empty and has no
  whitespace at either end.
\<close>

theorem read_tags_invariant:
  "(\<forall>p. fst (get_prompt_by_id db i) = Inr (Some p) \<longrightarrow>
        (\<forall>t\<in>set (p_tags p). t \<noteq> [] \<and> trimmed t)) \<and>
   (\<forall>ps. fst (get_all_prompts db) = Inr ps \<longrightarrow>
        (\<forall>p\<in>set ps. \<forall>t\<in>set (p_tags p). t \<noteq> [] \<and> trimmed t)) \<and>
   (\<forall>ps. fst (search_prompts db keyword) = Inr ps \<longrightarrow>
        (\<forall>p\<in>set ps. \<forall>t\<in>set (p_tags p). t \<noteq> [] \<and> trimmed t))"
proof (intro conjI allI impI ballI)
  fix p t
  assume "fst (get_prompt_by_id db i) = Inr (Some p)" and t: "t \<in> set (p_tags p)"
  then obtain r where "p = from_dict (fetch r)"
    by (auto simp: get_prompt_by_id_def split: option.splits sum.splits prod.splits if_splits)
  with t show "t \<noteq> []" "trimmed t" using from_dict_tags_well_formed by blast+
next
  fix ps p t
  assume "fst (get_all_prompts db) = Inr ps" and "p \<in> set ps" and t: "t \<in> set (p_tags p)"
  then obtain r where "p = from_dict (fetch r)"
    by (auto simp: get_all_prompts_def split: option.splits sum.splits prod.splits if_splits)
  with t show "t \<noteq> []" "trimmed t" using from_dict_tags_well_formed by blast+
next
  fix ps p t
  assume "fst (search_prompts db keyword) = Inr ps" and "p \<in> set ps"
    and t: "t \<in> set (p_tags p)"
  then obtain r where "p = from_dict (fetch r)"
    by (auto simp: search_prompts_def Let_def
        split: option.splits sum.splits prod.splits if_splits)
  with t show "t \<noteq> []" "trimmed t" using from_dict_tags_well_formed by blast+
qed

theorem read_tags_invariant_witness:
  "fst (get_prompt_by_id example_db 2) =
     Inr (Some \<lparr>p_id = Some 2, p_text = ''Draw a castle'', p_tags = [''art'', ''image''],
                p_tool = ''DALL-E'', p_is_favorite = True\<rparr>) \<and>
   list_all (\<lambda>t. t \<noteq> [] \<and> trimmed t) [''art'', ''image''] \<and>
   map_sum id (map p_tags) (fst (get_all_prompts example_db)) =
     Inr [[''summary'', ''llm''], [''art'', ''image''], [''code''], []] \<and>
   map_sum id (map p_tags) (fst (search_prompts example_db ''castle'')) =
     Inr [[''art'', ''image'']]"
proof -
  have g: "fst (get_prompt_by_id example_db 2) =
     Inr (Some \<lparr>p_id = Some 2, p_text = ''Draw a castle'', p_tags = [''art'', ''image''],
                p_tool = ''DALL-E'', p_is_favorite = True\<rparr>)"
    by code_simp
  have a: "map_sum id (map p_tags) (fst (get_all_prompts example_db)) =
     Inr [[''summary'', ''llm''], [''art'', ''image''], [''code''], []]"
    by code_simp
  have s: "map_sum id (map p_tags) (fst (search_prompts example_db ''castle'')) =
     Inr [[''art'', ''image'']]"
    by code_simp
  from read_tags_invariant[of example_db 2 "''castle''"] g
  have "\<forall>t\<in>set [''art'', ''image'']. t \<noteq> [] \<and> trimmed t" by simp
  then have "list_all (\<lambda>t. t \<noteq> [] \<and> trimmed t) [''art'', ''image'']"
    by (simp add: list_all_iff)
  with g a s show ?thesis by simp
qed


section \<open>Facts about the storage and the service layer\<close>

lemma execute_alt:
  "execute db = (stmt_errors db \<noteq> [] \<and> hd (stmt_errors db), db\<lparr>stmt_errors := tl (stmt_errors db)\<rparr>)"
  by (cases "stmt_errors db") (simp_all add: execute_def)

lemma healthy_connection:
  "healthy db \<Longrightarrow> \<exists>c. connection db = Some c \<and> is_connected c"
  by (auto simp: healthy_def split: option.splits)

lemma healthy_execute:
  "healthy db \<Longrightarrow> \<not> fst (execute db) \<and> healthy (snd (execute db))"
  by (cases "stmt_errors db") (auto simp: healthy_def execute_alt split: option.splits)

lemma find_append_fresh:
  "\<forall>r\<in>set xs. \<not> P r \<Longrightarrow> find P (xs @ ys) = find P ys"
  by (induction xs) auto

lemma find_map_update:
  "(\<And>r. key (g r) = key r) \<Longrightarrow>
   find (\<lambda>r. key r = i) (map (\<lambda>r. if key r = i then g r else r) xs)
     = map_option g (find (\<lambda>r. key r = i) xs)"
  by (induction xs) auto


lemma insert_prompt_healthy:
  assumes "healthy db"
  shows "insert_prompt db p =
           (Inr (Some (auto_increment db)),
            db\<lparr>stmt_errors := tl (stmt_errors db),
               prompts := prompts db @ [\<lparr>r_id = auto_increment db, r_text = p_text p,
                                        r_tags = str_join '','' (p_tags p), r_tool = p_tool p,
                                        r_is_favorite = p_is_favorite p\<rparr>],
               auto_increment := auto_increment db + 1\<rparr>)"
proof -
  from assms obtain c where c: "connection db = Some c" "is_connected c"
    using healthy_connection by blast
  from healthy_execute[OF assms] have "\<not> fst (execute db)" by simp
  then show ?thesis using c
    by (simp add: insert_prompt_def cursor_def execute_alt Let_def)
qed

lemma get_prompt_by_id_ok:
  assumes "connection db = Some c" "is_connected c" "\<not> fst (execute db)"
  shows "get_prompt_by_id db i =
           (Inr (map_option (\<lambda>r. from_dict (fetch r)) (find (\<lambda>r. r_id r = i) (prompts db))),
            snd (execute db))"
  using assms
  by (simp add: get_prompt_by_id_def cursor_def execute_alt split: option.splits)

lemma update_prompt_ok:
  assumes "connection db = Some c" "is_connected c" "\<not> fst (execute db)" "p_id p = Some i"
  shows "update_prompt db p =
          (Inr (if found_rows c then \<exists>r\<in>set (prompts db). r_id r = i
                else \<exists>r\<in>set (prompts db). r_id r = i \<and>
                       r\<lparr>r_text := p_text p, r_tags := str_join '','' (p_tags p),
                         r_tool := p_tool p, r_is_favorite := p_is_favorite p\<rparr> \<noteq> r),
           (snd (execute db))
             \<lparr>prompts := map (\<lambda>r. if r_id r = i
                     then r\<lparr>r_text := p_text p, r_tags := str_join '','' (p_tags p),
                            r_tool := p_tool p, r_is_favorite := p_is_favorite p\<rparr>
                     else r) (prompts db)\<rparr>)"
  using assms
  by (auto simp: update_prompt_def cursor_def execute_alt Let_def filter_empty_conv)

lemma find_SomeD: "find P xs = Some x \<Longrightarrow> P x \<and> x \<in> set xs"
  by (induction xs) (auto split: if_splits)

lemma find_None_iff': "find P xs = None \<longleftrightarrow> (\<forall>x\<in>set xs. \<not> P x)"
  by (induction xs) auto


lemma toggle_healthy:
  assumes h: "healthy db" and f: "find (\<lambda>r. r_id r = i) (prompts db) = Some r0"
  shows "\<exists>db2 r1. toggle_favorite_status db i = (Inr (Some (\<not> r_is_favorite r0)), db2) \<and>
           healthy db2 \<and> auto_increment db2 = auto_increment db \<and>
           find (\<lambda>r. r_id r = i) (prompts db2) = Some r1 \<and>
           r_is_favorite r1 = (\<not> r_is_favorite r0)"
proof -
  from h obtain c where c: "connection db = Some c" "is_connected c"
    using healthy_connection by blast
  from healthy_execute[OF h] have e: "\<not> fst (execute db)" and h1: "healthy (snd (execute db))"
    by simp_all
  let ?db1 = "snd (execute db)"
  let ?prompt = "from_dict (fetch r0)"
  let ?toggled = "?prompt\<lparr>p_is_favorite := \<not> p_is_favorite ?prompt\<rparr>"
  let ?g = "\<lambda>r. r\<lparr>r_text := p_text ?toggled, r_tags := str_join '','' (p_tags ?toggled),
                 r_tool := p_tool ?toggled, r_is_favorite := p_is_favorite ?toggled\<rparr>"
  from find_SomeD[OF f] have r0: "r_id r0 = i" "r0 \<in> set (prompts db)" by simp_all
  have get: "get_prompt_by_id db i = (Inr (Some ?prompt), ?db1)"
    using get_prompt_by_id_ok[OF c e, of i] f by simp
  have c1: "connection ?db1 = Some c" using c by (simp add: execute_alt)
  have p1: "prompts ?db1 = prompts db" by (simp add: execute_alt)
  from healthy_execute[OF h1] have e1: "\<not> fst (execute ?db1)"
    and h2: "healthy (snd (execute ?db1))" by simp_all
  have pid: "p_id ?toggled = Some i" using r0 by (simp add: from_dict_def fetch_def)
  have fav: "p_is_favorite ?toggled = (\<not> r_is_favorite r0)"
    by (simp add: from_dict_def fetch_def)
  have "?g r0 \<noteq> r0"
  proof
    assume "?g r0 = r0"
    then have "r_is_favorite (?g r0) = r_is_favorite r0" by simp
    with fav show False by simp
  qed
  with r0 p1 have changed: "\<exists>r\<in>set (prompts ?db1). r_id r = i \<and> ?g r \<noteq> r"
    and matched: "\<exists>r\<in>set (prompts ?db1). r_id r = i"
    by auto
  let ?db2 = "(snd (execute ?db1))\<lparr>prompts := map (\<lambda>r. if r_id r = i then ?g r else r) (prompts ?db1)\<rparr>"
  have upd: "update_prompt ?db1 ?toggled = (Inr True, ?db2)"
    using update_prompt_ok[OF c1 c(2) e1 pid] changed matched by simp
  have tog: "toggle_favorite_status db i = (Inr (Some (\<not> r_is_favorite r0)), ?db2)"
    using get upd fav by (simp add: toggle_favorite_status_def Let_def)
  have "find (\<lambda>r. r_id r = i) (prompts ?db2) = Some (?g r0)"
    using find_map_update[of r_id ?g i "prompts db"] f p1 by simp
  moreover have "r_is_favorite (?g r0) = (\<not> r_is_favorite r0)" using fav by simp
  moreover have "healthy ?db2" using h2 by (simp add: healthy_def)
  moreover have "auto_increment ?db2 = auto_increment db" by (simp add: execute_alt)
  ultimately show ?thesis using tog by blast
qed

lemma get_prompt_by_id_prompts: "prompts (snd (get_prompt_by_id db i)) = prompts db"
  by (simp add: get_prompt_by_id_def cursor_def execute_alt Let_def
      split: option.splits sum.splits)

lemma update_prompt_no_match:
  assumes "\<forall>r\<in>set (prompts db). r_id r \<noteq> i" and "p_id p = Some i"
  shows "prompts (snd (update_prompt db p)) = prompts db"
    and "cursor_available db \<Longrightarrow> fst (update_prompt db p) = Inr False"
proof -
  from assms(1) have m: "map (\<lambda>r. if r_id r = i then f r else r) (prompts db) = prompts db" for f
    by (simp add: map_idI)
  from assms(1) have n: "filter (\<lambda>r. r_id r = i) (prompts db) = []"
    by (simp add: filter_empty_conv)
  show "prompts (snd (update_prompt db p)) = prompts db"
    using assms(2) m
    by (simp add: update_prompt_def cursor_def execute_alt Let_def
        split: option.splits sum.splits)
  show "fst (update_prompt db p) = Inr False" if "cursor_available db"
    using that assms(2) n
    by (auto simp: update_prompt_def cursor_def cursor_available_def execute_alt Let_def
        split: option.splits sum.splits)
qed

lemma get_prompt_by_id_no_match:
  assumes "\<forall>r\<in>set (prompts db). r_id r \<noteq> i" and "cursor_available db"
  shows "fst (get_prompt_by_id db i) = Inr None"
proof -
  from assms(1) have "find (\<lambda>r. r_id r = i) (prompts db) = None"
    by (simp add: find_None_iff')
  with assms(2) show ?thesis
    by (auto simp: get_prompt_by_id_def cursor_def cursor_available_def execute_alt Let_def
        split: option.splits sum.splits)
qed

lemma service_update_prompt_no_match:
  assumes "\<forall>r\<in>set (prompts db). r_id r \<noteq> i"
  shows "prompts (snd (service_update_prompt db i text tags tool fav)) = prompts db"
    and "cursor_available db \<Longrightarrow>
         fst (service_update_prompt db i text tags tool fav) = Inr False"
proof -
  obtain res db1 where g: "get_prompt_by_id db i = (res, db1)"
    by (cases "get_prompt_by_id db i")
  then have p1: "prompts db1 = prompts db"
    using get_prompt_by_id_prompts[of db i] by simp
  from assms have "find (\<lambda>r. r_id r = i) (prompts db) = None"
    by (simp add: find_None_iff')
  with g have nf: "res = Inr None \<or> (\<exists>e. res = Inl e)"
    by (auto simp: get_prompt_by_id_def cursor_def execute_alt Let_def
        split: option.splits sum.splits if_splits)
  then show "prompts (snd (service_update_prompt db i text tags tool fav)) = prompts db"
    using g p1 by (auto simp: service_update_prompt_def)
  show "fst (service_update_prompt db i text tags tool fav) = Inr False"
    if "cursor_available db"
    using get_prompt_by_id_no_match[OF assms that] g
    by (simp add: service_update_prompt_def)
qed

lemma update_prompt_no_success:
  assumes "\<forall>r\<in>set (prompts db). r_id r \<noteq> i" and "p_id p = Some i"
  shows "fst (update_prompt db p) \<noteq> Inr True"
proof -
  from assms(1) have n: "filter (\<lambda>r. r_id r = i) (prompts db) = []"
    by (simp add: filter_empty_conv)
  then show ?thesis using assms(2)
    by (auto simp: update_prompt_def cursor_def execute_alt Let_def
        split: option.splits sum.splits)
qed

lemma service_update_prompt_no_success:
  assumes "\<forall>r\<in>set (prompts db). r_id r \<noteq> i"
  shows "fst (service_update_prompt db i text tags tool fav) \<noteq> Inr True"
proof -
  obtain res db1 where g: "get_prompt_by_id db i = (res, db1)"
    by (cases "get_prompt_by_id db i")
  from assms have "find (\<lambda>r. r_id r = i) (prompts db) = None"
    by (simp add: find_None_iff')
  with g have "res = Inr None \<or> (\<exists>e. res = Inl e)"
    by (auto simp: get_prompt_by_id_def cursor_def execute_alt Let_def
        split: option.splits sum.splits if_splits)
  then show ?thesis using g by (auto simp: service_update_prompt_def)
qed

lemma service_update_prompt_healthy:
  assumes h: "healthy db" and m: "\<exists>r\<in>set (prompts db). r_id r = i"
  shows "prompts (snd (service_update_prompt db i text tags tool fav)) =
           map (\<lambda>r. if r_id r = i
                     then \<lparr>r_id = i, r_text = text, r_tags = str_join '','' tags,
                           r_tool = tool, r_is_favorite = fav\<rparr>
                     else r) (prompts db)"
proof -
  from h obtain c where c: "connection db = Some c" "is_connected c"
    using healthy_connection by blast
  from healthy_execute[OF h] have e: "\<not> fst (execute db)" and h1: "healthy (snd (execute db))"
    by simp_all
  from m obtain r0 where f: "find (\<lambda>r. r_id r = i) (prompts db) = Some r0"
    by (cases "find (\<lambda>r. r_id r = i) (prompts db)") (auto simp: find_None_iff')
  from find_SomeD[OF f] have r0: "r_id r0 = i" by simp
  let ?db1 = "snd (execute db)"
  let ?prompt = "(from_dict (fetch r0))\<lparr>p_text := text, p_tags := tags, p_tool := tool,
                    p_is_favorite := fav\<rparr>"
  have get: "get_prompt_by_id db i = (Inr (Some (from_dict (fetch r0))), ?db1)"
    using get_prompt_by_id_ok[OF c e, of i] f by simp
  have c1: "connection ?db1 = Some c" using c by (simp add: execute_alt)
  have p1: "prompts ?db1 = prompts db" by (simp add: execute_alt)
  from healthy_execute[OF h1] have e1: "\<not> fst (execute ?db1)" by simp
  have pid: "p_id ?prompt = Some i" using r0 by (simp add: from_dict_def fetch_def)
  have "prompts (snd (update_prompt ?db1 ?prompt)) =
          map (\<lambda>r. if r_id r = i
                    then r\<lparr>r_text := text, r_tags := str_join '','' tags,
                           r_tool := tool, r_is_favorite := fav\<rparr>
                    else r) (prompts db)"
    using update_prompt_ok[OF c1 c(2) e1 pid] p1 by simp
  also have "\<dots> = map (\<lambda>r. if r_id r = i
                     then \<lparr>r_id = i, r_text = text, r_tags = str_join '','' tags,
                           r_tool = tool, r_is_favorite = fav\<rparr>
                     else r) (prompts db)"
    by (rule map_cong) auto
  finally show ?thesis using get by (simp add: service_update_prompt_def)
qed

lemma sql_like_percent: "sql_like s ''%''"
  by (induction s) auto

lemma sql_like_plain_prefix:
  "plain_keyword keyword \<Longrightarrow> sql_like s (keyword @ ''%'') = ci_prefix keyword s"
proof (induction keyword arbitrary: s)
  case Nil
  then show ?case by (simp add: sql_like_percent)
next
  case (Cons k ks)
  then have k: "k \<noteq> CHR ''%''" "k \<noteq> CHR ''_''" "k \<noteq> CHR 0x5C" and ks: "plain_keyword ks"
    by (auto simp: plain_keyword_def)
  show ?case
  proof (cases s)
    case Nil
    with k show ?thesis by simp
  next
    case (Cons c cs)
    with k Cons.IH[OF ks, of cs] show ?thesis by simp
  qed
qed

lemma sql_like_search_term:
  "plain_keyword keyword \<Longrightarrow> sql_like s (''%'' @ keyword @ ''%'') = ci_substring keyword s"
proof (induction s)
  case Nil
  then show ?case using sql_like_plain_prefix[of keyword "[]"] by simp
next
  case (Cons c cs)
  then show ?case using sql_like_plain_prefix[of keyword "c # cs"] by simp
qed

lemma search_prompts_plain_keyword:
  assumes "plain_keyword keyword" and "healthy db"
  shows "fst (search_prompts db keyword) =
           Inr (map (\<lambda>r. from_dict (fetch r)) (filter (keyword_matches keyword) (prompts db)))"
proof -
  from assms(2) obtain c where c: "connection db = Some c" "is_connected c"
    using healthy_connection by blast
  from healthy_execute[OF assms(2)] have e: "\<not> fst (execute db)" by simp
  have "(\<lambda>r. sql_like (r_text r) (''%'' @ keyword @ ''%'')
              \<or> sql_like (r_tags r) (''%'' @ keyword @ ''%'')
              \<or> sql_like (r_tool r) (''%'' @ keyword @ ''%'')) = keyword_matches keyword"
    using sql_like_search_term[OF assms(1)] by (simp add: keyword_matches_def fun_eq_iff)
  then show ?thesis using c e
    by (auto simp: search_prompts_def cursor_def execute_alt Let_def)
qed

lemma unset_connection_short_circuit:
  assumes "connection db = None"
  shows "create_table db = (Inr (), db) \<and>
         insert_prompt db p = (Inr None, db) \<and>
         get_prompt_by_id db i = (Inr None, db) \<and>
         update_prompt db p = (Inr False, db) \<and>
         delete_prompt db i = (Inr False, db) \<and>
         get_all_prompts db = (Inr [], db) \<and>
         search_prompts db keyword = (Inr [], db)"
  using assms
  by (simp add: create_table_def insert_prompt_def get_prompt_by_id_def update_prompt_def
      delete_prompt_def get_all_prompts_def search_prompts_def)

lemma statement_errors_are_caught:
  assumes "cursor_available db"
  shows "create_table db = (res0, db0) \<Longrightarrow> res0 = Inr ()"
    and "insert_prompt db p = (res1, db1) \<Longrightarrow> \<exists>v. res1 = Inr v"
    and "get_prompt_by_id db i = (res2, db2) \<Longrightarrow> \<exists>v. res2 = Inr v"
    and "update_prompt db p = (res3, db3) \<Longrightarrow> \<exists>v. res3 = Inr v"
    and "delete_prompt db i = (res4, db4) \<Longrightarrow> \<exists>v. res4 = Inr v"
    and "get_all_prompts db = (res5, db5) \<Longrightarrow> \<exists>v. res5 = Inr v"
    and "search_prompts db keyword = (res6, db6) \<Longrightarrow> \<exists>v. res6 = Inr v"
  using assms
  by (auto simp: create_table_def insert_prompt_def get_prompt_by_id_def update_prompt_def
      delete_prompt_def get_all_prompts_def search_prompts_def cursor_def cursor_available_def
      execute_alt Let_def split: option.splits if_splits)

lemma ids_below_counter_preserved:
  assumes "ids_below_counter db"
  shows "ids_below_counter (snd (insert_prompt db p))"
    and "ids_below_counter (snd (get_prompt_by_id db i))"
    and "ids_below_counter (snd (update_prompt db p))"
    and "ids_below_counter (snd (delete_prompt db i))"
    and "ids_below_counter (snd (get_all_prompts db))"
    and "ids_below_counter (snd (search_prompts db keyword))"
  using assms
  by (auto simp: ids_below_counter_def insert_prompt_def get_prompt_by_id_def update_prompt_def
      delete_prompt_def get_all_prompts_def search_prompts_def cursor_def
      execute_alt Let_def split: option.splits if_splits)

lemma example_db_ok:
  "healthy example_db" "ids_below_counter example_db" "cursor_available example_db"
  by (simp_all add: healthy_def ids_below_counter_def cursor_available_def example_db_def
      example_rows_def)


section \<open>Properties of the storage layer\<close>

text \<open>
  C10. For every prompt whose id is \<open>None\<close>, \<open>update_prompt\<close> of the storage layer returns
  \<open>False\<close> and leaves the storage exactly as it was: no row is written and no statement
  is sent.
\<close>

theorem update_without_id:
  "p_id prompt = None \<Longrightarrow> update_prompt db prompt = (Inr False, db)"
  by (simp add: update_prompt_def split: option.splits)

theorem update_without_id_witness:
  "update_prompt example_db example_prompt = (Inr False, example_db)"
  using update_without_id[of example_prompt example_db] by (simp add: example_prompt_def)







text \<open>
  C7. For a keyword without \<open>%\<close>, \<open>_\<close> and backslash, \<open>search_prompts\<close> on a working
  storage returns exactly the rows that contain the keyword as a case-insensitive
  substring of the text, the stored tags string or the tool
  (\<open>search_prompts_plain_keyword\<close>). But the keyword is put into the \<open>LIKE\<close> pattern as it
  is, so \<open>g_t\<close> finds the rows 1 and 3, which contain \<open>GPT\<close> and \<open>gpt\<close>, although
  no field of any row contains \<open>g_t\<close>.
\<close>

theorem search_wildcard_match:
  "map_sum id (map p_id) (fst (search_prompts example_db ''g_t'')) = Inr [Some 1, Some 3] \<and>
   filter (keyword_matches ''g_t'') (prompts example_db) = []"
  by code_simp



text \<open>
  C8. With the handle unset every operation returns its failure value and leaves the
  storage untouched (\<open>unset_connection_short_circuit\<close>), and an error of a statement
  is caught (\<open>statement_errors_are_caught\<close>). But the claim that no operation ever raises
  fails: every operation opens its cursor before its \<open>try\<close> block, so on a handle whose
  connection is lost the \<open>OperationalError\<close> of \<open>cursor()\<close> leaves the storage layer, and
  the service layer with it.
\<close>

theorem lost_connection_raises:
  "fst (create_table lost_db) = Inl OperationalError \<and>
   fst (insert_prompt lost_db example_prompt) = Inl OperationalError \<and>
   fst (get_prompt_by_id lost_db 1) = Inl OperationalError \<and>
   fst (update_prompt lost_db (example_prompt\<lparr>p_id := Some 1\<rparr>)) = Inl OperationalError \<and>
   fst (delete_prompt lost_db 1) = Inl OperationalError \<and>
   fst (get_all_prompts lost_db) = Inl OperationalError \<and>
   fst (search_prompts lost_db ''gpt'') = Inl OperationalError \<and>
   fst (toggle_favorite_status lost_db 1) = Inl OperationalError"
  by code_simp



section \<open>Properties of the service layer\<close>

text \<open>
  C2. For every keyword and every favorite flag, present or absent,
  \<open>search_and_filter_prompts\<close> returns the result of \<open>search_prompts\<close> when the keyword is
  non-empty, and the result of \<open>get_all_prompts\<close> when it is empty or absent, restricted by
  \<open>favorite_only\<close>: to the prompts whose \<open>is_favorite\<close> equals the flag when there is one, and
  not at all when there is none.
\<close>

theorem search_and_filter_composition:
  "(k \<noteq> [] \<longrightarrow>
      search_and_filter_prompts db (Some k) is_favorite
        = favorite_only is_favorite (search_prompts db k)) \<and>
   search_and_filter_prompts db (Some []) is_favorite
     = favorite_only is_favorite (get_all_prompts db) \<and>
   search_and_filter_prompts db None is_favorite
     = favorite_only is_favorite (get_all_prompts db) \<and>
   favorite_only None (get_all_prompts db) = get_all_prompts db \<and>
   favorite_only None (search_prompts db k) = search_prompts db k"
  by (auto simp: search_and_filter_prompts_def favorite_only_def
      split: prod.splits sum.splits option.splits)

theorem search_and_filter_composition_witness:
  "fst (search_and_filter_prompts example_db (Some ''gpt'') (Some True)) =
     Inr [\<lparr>p_id = Some 1, p_text = ''Summarise the GPT answer'',
           p_tags = [''summary'', ''llm''], p_tool = ''ChatGPT'', p_is_favorite = True\<rparr>] \<and>
   map_sum id (map p_id) (fst (search_prompts example_db ''gpt'')) = Inr [Some 1, Some 3]"
proof -
  have "fst (favorite_only (Some True) (search_prompts example_db ''gpt'')) =
     Inr [\<lparr>p_id = Some 1, p_text = ''Summarise the GPT answer'',
           p_tags = [''summary'', ''llm''], p_tool = ''ChatGPT'', p_is_favorite = True\<rparr>]"
    by code_simp
  moreover have "map_sum id (map p_id) (fst (search_prompts example_db ''gpt'')) =
     Inr [Some 1, Some 3]"
    by code_simp
  ultimately show ?thesis
    using search_and_filter_composition[of "''gpt''" example_db "Some True"] by simp
qed

text \<open>
  C3. \<open>toggle_favorite_status\<close> loads the prompt by its id. If the load gives no prompt
  it returns \<open>None\<close>. Otherwise it flips \<open>is_favorite\<close>, hands the prompt to
  \<open>update_prompt\<close> of the storage layer, and returns the new flag when the update
  reports success and \<open>None\<close> when it reports failure. In particular, on a working storage
  whose ids lie below the counter: after a prompt with \<open>is_favorite = False\<close> has been
  inserted, the first toggle returns \<open>True\<close>, \<open>get_prompt_by_id\<close> then shows
  \<open>is_favorite = True\<close>, and a second toggle returns \<open>False\<close>.
\<close>

theorem toggle_semantics:
  "(\<forall>db1. get_prompt_by_id db i = (Inr None, db1) \<longrightarrow>
       toggle_favorite_status db i = (Inr None, db1)) \<and>
   (\<forall>prompt db1 db2.
       get_prompt_by_id db i = (Inr (Some prompt), db1) \<longrightarrow>
         (update_prompt db1 (prompt\<lparr>p_is_favorite := \<not> p_is_favorite prompt\<rparr>) = (Inr True, db2)
            \<longrightarrow> toggle_favorite_status db i = (Inr (Some (\<not> p_is_favorite prompt)), db2)) \<and>
         (update_prompt db1 (prompt\<lparr>p_is_favorite := \<not> p_is_favorite prompt\<rparr>) = (Inr False, db2)
            \<longrightarrow> toggle_favorite_status db i = (Inr None, db2))) \<and>
   (healthy db \<and> ids_below_counter db \<and> \<not> p_is_favorite p \<longrightarrow>
      (\<exists>k db1 db2 q db3 db4.
          insert_prompt db p = (Inr (Some k), db1) \<and>
          toggle_favorite_status db1 k = (Inr (Some True), db2) \<and>
          get_prompt_by_id db2 k = (Inr (Some q), db3) \<and> p_is_favorite q \<and>
          toggle_favorite_status db3 k = (Inr (Some False), db4)))"
proof (intro conjI allI impI)
  fix db1
  assume "get_prompt_by_id db i = (Inr None, db1)"
  then show "toggle_favorite_status db i = (Inr None, db1)"
    by (simp add: toggle_favorite_status_def)
next
  fix prompt db1 db2
  assume "get_prompt_by_id db i = (Inr (Some prompt), db1)"
    and "update_prompt db1 (prompt\<lparr>p_is_favorite := \<not> p_is_favorite prompt\<rparr>) = (Inr True, db2)"
  then show "toggle_favorite_status db i = (Inr (Some (\<not> p_is_favorite prompt)), db2)"
    by (simp add: toggle_favorite_status_def Let_def)
next
  fix prompt db1 db2
  assume "get_prompt_by_id db i = (Inr (Some prompt), db1)"
    and "update_prompt db1 (prompt\<lparr>p_is_favorite := \<not> p_is_favorite prompt\<rparr>) = (Inr False, db2)"
  then show "toggle_favorite_status db i = (Inr None, db2)"
    by (simp add: toggle_favorite_status_def Let_def)
next
  assume a: "healthy db \<and> ids_below_counter db \<and> \<not> p_is_favorite p"
  let ?k = "auto_increment db"
  let ?new = "\<lparr>r_id = ?k, r_text = p_text p, r_tags = str_join '','' (p_tags p),
               r_tool = p_tool p, r_is_favorite = p_is_favorite p\<rparr>"
  let ?db1 = "db\<lparr>stmt_errors := tl (stmt_errors db), prompts := prompts db @ [?new],
                 auto_increment := ?k + 1\<rparr>"
  from a have ins: "insert_prompt db p = (Inr (Some ?k), ?db1)"
    by (simp add: insert_prompt_healthy)
  from a have h1: "healthy ?db1"
    by (cases "stmt_errors db") (auto simp: healthy_def)
  from a have "\<forall>r\<in>set (prompts db). \<not> r_id r = ?k"
    by (auto simp: ids_below_counter_def)
  then have f1: "find (\<lambda>r. r_id r = ?k) (prompts ?db1) = Some ?new"
    by (simp add: find_append_fresh)
  from toggle_healthy[OF h1 f1] a obtain db2 r1 where
    t1: "toggle_favorite_status ?db1 ?k = (Inr (Some True), db2)"
    and h2: "healthy db2" and f2: "find (\<lambda>r. r_id r = ?k) (prompts db2) = Some r1"
    and fav1: "r_is_favorite r1"
    by auto
  from h2 obtain c where c: "connection db2 = Some c" "is_connected c"
    using healthy_connection by blast
  from healthy_execute[OF h2] have e2: "\<not> fst (execute db2)" and h3: "healthy (snd (execute db2))"
    by simp_all
  let ?q = "from_dict (fetch r1)"
  let ?db3 = "snd (execute db2)"
  have g: "get_prompt_by_id db2 ?k = (Inr (Some ?q), ?db3)"
    using get_prompt_by_id_ok[OF c e2, of ?k] f2 by simp
  have favq: "p_is_favorite ?q" using fav1 by (simp add: from_dict_def fetch_def)
  have f3: "find (\<lambda>r. r_id r = ?k) (prompts ?db3) = Some r1"
    using f2 by (simp add: execute_alt)
  from toggle_healthy[OF h3 f3] fav1 obtain db4 where
    t2: "toggle_favorite_status ?db3 ?k = (Inr (Some False), db4)"
    by auto
  from ins t1 g favq t2
  show "\<exists>k db1 db2 q db3 db4.
          insert_prompt db p = (Inr (Some k), db1) \<and>
          toggle_favorite_status db1 k = (Inr (Some True), db2) \<and>
          get_prompt_by_id db2 k = (Inr (Some q), db3) \<and> p_is_favorite q \<and>
          toggle_favorite_status db3 k = (Inr (Some False), db4)"
    by blast
qed

theorem toggle_semantics_witness:
  "toggle_favorite_status example_db 4 = (Inr None, example_db) \<and>
   fst (toggle_favorite_status flaky_db 3) = Inr None \<and>
   (\<exists>k db1 db2 q db3 db4.
       insert_prompt example_db example_prompt = (Inr (Some k), db1) \<and>
       toggle_favorite_status db1 k = (Inr (Some True), db2) \<and>
       get_prompt_by_id db2 k = (Inr (Some q), db3) \<and> p_is_favorite q \<and>
       toggle_favorite_status db3 k = (Inr (Some False), db4))"
proof -
  have g: "get_prompt_by_id example_db 4 = (Inr None, example_db)"
    by code_simp
  have get3: "get_prompt_by_id flaky_db 3 =
      (Inr (Some \<lparr>p_id = Some 3, p_text = ''Refactor this module'', p_tags = [''code''],
                  p_tool = ''gpt-4'', p_is_favorite = False\<rparr>),
       flaky_db\<lparr>stmt_errors := [True]\<rparr>)"
    by code_simp
  have upd3: "update_prompt (flaky_db\<lparr>stmt_errors := [True]\<rparr>)
        (\<lparr>p_id = Some 3, p_text = ''Refactor this module'', p_tags = [''code''],
          p_tool = ''gpt-4'', p_is_favorite = False\<rparr>
         \<lparr>p_is_favorite := \<not> p_is_favorite \<lparr>p_id = Some 3, p_text = ''Refactor this module'', p_tags = [''code''],
          p_tool = ''gpt-4'', p_is_favorite = False\<rparr>\<rparr>) =
      (Inr False, flaky_db\<lparr>stmt_errors := []\<rparr>)"
    by code_simp
  have h: "healthy example_db \<and> ids_below_counter example_db \<and> \<not> p_is_favorite example_prompt"
    by (simp add: example_db_ok example_prompt_def)
  from toggle_semantics[of example_db 4 example_prompt] g h
  have a: "toggle_favorite_status example_db 4 = (Inr None, example_db)"
    and c: "\<exists>k db1 db2 q db3 db4.
       insert_prompt example_db example_prompt = (Inr (Some k), db1) \<and>
       toggle_favorite_status db1 k = (Inr (Some True), db2) \<and>
       get_prompt_by_id db2 k = (Inr (Some q), db3) \<and> p_is_favorite q \<and>
       toggle_favorite_status db3 k = (Inr (Some False), db4)"
    by blast+
  from toggle_semantics[of flaky_db 3 example_prompt] get3 upd3
  have b: "fst (toggle_favorite_status flaky_db 3) = Inr None"
    by simp
  from a b c show ?thesis by blast
qed


text \<open>
  What holds of an update in every state. When no row has the id, \<open>update_prompt\<close> of the
  service and \<open>update_prompt\<close> of the storage layer leave the table as it was and never
  report success, and they return \<open>False\<close> whenever opening a cursor does not raise, that
  is, whenever the handle is unset or its connection is up. When a row has the id and the
  storage works, \<open>update_prompt\<close> of the service replaces the text, the tags, the tool and
  the favorite flag of that row by the values supplied, whatever they were before, and
  leaves the other rows alone.
\<close>

lemma update_missing_or_full_replace:
  "((\<forall>r\<in>set (prompts db). r_id r \<noteq> i) \<longrightarrow>
       prompts (snd (service_update_prompt db i text tags tool fav)) = prompts db \<and>
       prompts (snd (update_prompt db (p\<lparr>p_id := Some i\<rparr>))) = prompts db \<and>
       fst (service_update_prompt db i text tags tool fav) \<noteq> Inr True \<and>
       fst (update_prompt db (p\<lparr>p_id := Some i\<rparr>)) \<noteq> Inr True \<and>
       (cursor_available db \<longrightarrow>
          fst (service_update_prompt db i text tags tool fav) = Inr False \<and>
          fst (update_prompt db (p\<lparr>p_id := Some i\<rparr>)) = Inr False)) \<and>
   ((\<exists>r\<in>set (prompts db). r_id r = i) \<and> healthy db \<longrightarrow>
       prompts (snd (service_update_prompt db i text tags tool fav)) =
         map (\<lambda>r. if r_id r = i
                   then \<lparr>r_id = i, r_text = text, r_tags = str_join '','' tags,
                         r_tool = tool, r_is_favorite = fav\<rparr>
                   else r) (prompts db))"
  by (simp add: service_update_prompt_no_match update_prompt_no_match
      service_update_prompt_healthy service_update_prompt_no_success
      update_prompt_no_success)

lemma update_missing_or_full_replace_example:
  "fst (service_update_prompt example_db 4 ''New text'' [''x'', ''y''] ''Claude'' True) = Inr False \<and>
   prompts (snd (service_update_prompt example_db 4 ''New text'' [''x'', ''y''] ''Claude'' True))
     = example_rows \<and>
   fst (update_prompt example_db (example_prompt\<lparr>p_id := Some 4\<rparr>)) = Inr False \<and>
   prompts (snd (update_prompt example_db (example_prompt\<lparr>p_id := Some 4\<rparr>))) = example_rows \<and>
   prompts (snd (service_update_prompt example_db 3 ''New text'' [''x'', ''y''] ''Claude'' True))
     = [\<lparr>r_id = 1, r_text = ''Summarise the GPT answer'', r_tags = ''summary, llm'',
         r_tool = ''ChatGPT'', r_is_favorite = True\<rparr>,
        \<lparr>r_id = 2, r_text = ''Draw a castle'', r_tags = ''art,,image '',
         r_tool = ''DALL-E'', r_is_favorite = True\<rparr>,
        \<lparr>r_id = 3, r_text = ''New text'', r_tags = ''x,y'',
         r_tool = ''Claude'', r_is_favorite = True\<rparr>,
        \<lparr>r_id = 5, r_text = ''Translate to French'', r_tags = [],
         r_tool = ''Gemini API'', r_is_favorite = False\<rparr>]"
proof -
  have n: "\<forall>r\<in>set (prompts example_db). r_id r \<noteq> 4"
    by (simp add: example_db_def example_rows_def)
  have m: "\<exists>r\<in>set (prompts example_db). r_id r = 3"
    by (simp add: example_db_def example_rows_def)
  have p: "prompts example_db = example_rows" by (simp add: example_db_def)
  from update_missing_or_full_replace[of example_db 4 "''New text''" "[''x'', ''y'']" "''Claude''" True example_prompt]
    n example_db_ok(3) p
  have a: "fst (service_update_prompt example_db 4 ''New text'' [''x'', ''y''] ''Claude'' True) = Inr False \<and>
   prompts (snd (service_update_prompt example_db 4 ''New text'' [''x'', ''y''] ''Claude'' True))
     = example_rows \<and>
   fst (update_prompt example_db (example_prompt\<lparr>p_id := Some 4\<rparr>)) = Inr False \<and>
   prompts (snd (update_prompt example_db (example_prompt\<lparr>p_id := Some 4\<rparr>))) = example_rows"
    by simp
  from update_missing_or_full_replace[of example_db 3 "''New text''" "[''x'', ''y'']" "''Claude''" True example_prompt]
    m example_db_ok(1)
  have "prompts (snd (service_update_prompt example_db 3 ''New text'' [''x'', ''y''] ''Claude'' True))
     = map (\<lambda>r. if r_id r = 3
                   then \<lparr>r_id = 3, r_text = ''New text'', r_tags = str_join '','' [''x'', ''y''],
                         r_tool = ''Claude'', r_is_favorite = True\<rparr>
                   else r) (prompts example_db)"
    by blast
  then have b: "prompts (snd (service_update_prompt example_db 3 ''New text'' [''x'', ''y''] ''Claude'' True))
     = [\<lparr>r_id = 1, r_text = ''Summarise the GPT answer'', r_tags = ''summary, llm'',
         r_tool = ''ChatGPT'', r_is_favorite = True\<rparr>,
        \<lparr>r_id = 2, r_text = ''Draw a castle'', r_tags = ''art,,image '',
         r_tool = ''DALL-E'', r_is_favorite = True\<rparr>,
        \<lparr>r_id = 3, r_text = ''New text'', r_tags = ''x,y'',
         r_tool = ''Claude'', r_is_favorite = True\<rparr>,
        \<lparr>r_id = 5, r_text = ''Translate to French'', r_tags = [],
         r_tool = ''Gemini API'', r_is_favorite = False\<rparr>]"
    by (simp add: example_db_def example_rows_def)
  from a b show ?thesis by blast
qed

text \<open>
  C6. An update for an id that no row has is to return \<open>False\<close> and to leave the table
  as it was. The table is left as it was, but \<open>False\<close> is not always returned: no row of
  the example table has the id 4, and on the handle whose connection is lost both
  \<open>update_prompt\<close> of the storage layer and \<open>update_prompt\<close> of the service raise the
  \<open>OperationalError\<close> of \<open>cursor()\<close>, which is opened before the \<open>try\<close> block.
\<close>

theorem update_missing_id_lost_connection:
  "list_all (\<lambda>r. r_id r \<noteq> 4) (prompts lost_db) \<and>
   fst (update_prompt lost_db (example_prompt\<lparr>p_id := Some 4\<rparr>)) = Inl OperationalError \<and>
   fst (service_update_prompt lost_db 4 ''New text'' [''x'', ''y''] ''Claude'' True)
     = Inl OperationalError \<and>
   prompts (snd (update_prompt lost_db (example_prompt\<lparr>p_id := Some 4\<rparr>))) = example_rows \<and>
   prompts (snd (service_update_prompt lost_db 4 ''New text'' [''x'', ''y''] ''Claude'' True))
     = example_rows"
  by code_simp

end
